theory Spec2Isabelle
  imports Complex_Main
begin

section \<open>Data model of the habitat designer\<close>

text \<open>
  The model follows \<^verbatim>\<open>src/components/habitat-designer.tsx\<close>. A JavaScript
  \<^verbatim>\<open>number\<close> is modelled as a \<^typ>\<open>real\<close>: the formulas are read as exact
  arithmetic, and the rounding, NaN and infinities of IEEE doubles are outside the model.
  The reading of the clock (\<^verbatim>\<open>Date.now()\<close>, a count of milliseconds) is a
  parameter of type \<^typ>\<open>nat\<close>. The React state of the component
  (\<^verbatim>\<open>modules\<close>, \<^verbatim>\<open>selectedModuleId\<close>, \<^verbatim>\<open>collisionError\<close>) is a
  record that every operation takes and returns. The timer that clears the collision
  notice after three seconds is real time and is not modelled.
\<close>

datatype ModuleType = Dormitory | Eclss | Lab | Storage | Airlock | Greenhouse

datatype Geometry = Box | Cylinder

type_synonym vec3 = "real \<times> real \<times> real"

record ModuleData =
  id_m :: string
  type :: ModuleType
  position :: vec3
  rotation :: vec3
  scale :: real
  cost :: real
  mass :: real
  volume :: real

record ModuleSpec =
  name :: string
  baseCost :: real
  baseMass :: real
  baseVolume :: real
  color :: string
  geometry :: Geometry

fun MODULE_SPECS :: "ModuleType \<Rightarrow> ModuleSpec" where
  "MODULE_SPECS Dormitory =
     \<lparr>name = ''Dormitory'', baseCost = 45, baseMass = 8000, baseVolume = 120,
      color = ''#3b82f6'', geometry = Cylinder\<rparr>"
| "MODULE_SPECS Eclss =
     \<lparr>name = ''ECLSS'', baseCost = 150, baseMass = 12000, baseVolume = 80,
      color = ''#10b981'', geometry = Box\<rparr>"
| "MODULE_SPECS Lab =
     \<lparr>name = ''Laboratory'', baseCost = 85, baseMass = 10000, baseVolume = 150,
      color = ''#8b5cf6'', geometry = Box\<rparr>"
| "MODULE_SPECS Storage =
     \<lparr>name = ''Storage'', baseCost = 25, baseMass = 5000, baseVolume = 60,
      color = ''#f59e0b'', geometry = Box\<rparr>"
| "MODULE_SPECS Airlock =
     \<lparr>name = ''Airlock'', baseCost = 35, baseMass = 6000, baseVolume = 40,
      color = ''#ef4444'', geometry = Cylinder\<rparr>"
| "MODULE_SPECS Greenhouse =
     \<lparr>name = ''Greenhouse'', baseCost = 65, baseMass = 9000, baseVolume = 100,
      color = ''#22c55e'', geometry = Box\<rparr>"

text \<open>The string that a value of the TypeScript union \<^verbatim>\<open>ModuleType\<close> is.\<close>

fun type_string :: "ModuleType \<Rightarrow> string" where
  "type_string Dormitory = ''dormitory''"
| "type_string Eclss = ''eclss''"
| "type_string Lab = ''lab''"
| "type_string Storage = ''storage''"
| "type_string Airlock = ''airlock''"
| "type_string Greenhouse = ''greenhouse''"

subsection \<open>Collision predicate\<close>

text \<open>
  \<^verbatim>\<open>checkAABBCollision(pos1, scale1, pos2, scale2, size = 2)\<close>: the function with
  its fifth parameter explicit, and the call with the default that every call site uses.
\<close>

fun checkAABBCollision_size :: "vec3 \<Rightarrow> real \<Rightarrow> vec3 \<Rightarrow> real \<Rightarrow> real \<Rightarrow> bool" where
  "checkAABBCollision_size (x1, y1, z1) scale1 (x2, y2, z2) scale2 size_e =
     (let halfSize1 = (size_e * scale1) / 2;
          halfSize2 = (size_e * scale2) / 2
      in \<bar>x1 - x2\<bar> < halfSize1 + halfSize2 \<and>
         \<bar>y1 - y2\<bar> < halfSize1 + halfSize2 \<and>
         \<bar>z1 - z2\<bar> < halfSize1 + halfSize2)"

definition checkAABBCollision :: "vec3 \<Rightarrow> real \<Rightarrow> vec3 \<Rightarrow> real \<Rightarrow> bool" where
  "checkAABBCollision pos1 scale1 pos2 scale2 =
     checkAABBCollision_size pos1 scale1 pos2 scale2 2"

text \<open>The predicate on two placed modules, as the operations apply it.\<close>

definition collides :: "ModuleData \<Rightarrow> ModuleData \<Rightarrow> bool" where
  "collides m1 m2 = checkAABBCollision (position m1) (scale m1) (position m2) (scale m2)"

text \<open>
  The layout invariant: no module collides with a module later in the list. By the
  symmetry of the predicate this is the same as no two entries of the list colliding.
\<close>

fun no_overlap :: "ModuleData list \<Rightarrow> bool" where
  "no_overlap [] = True"
| "no_overlap (m # ms) = (\<not> list_ex (collides m) ms \<and> no_overlap ms)"

subsection \<open>Component state\<close>

record State =
  modules :: "ModuleData list"
  selectedModuleId :: "string option"
  collisionError :: "string option"

definition initial_state :: State where
  "initial_state = \<lparr>modules = [], selectedModuleId = None, collisionError = None\<rparr>"

definition selectedModule :: "State \<Rightarrow> ModuleData option" where
  "selectedModule st =
     (case selectedModuleId st of
        None \<Rightarrow> None
      | Some sid \<Rightarrow> find (\<lambda>m. id_m m = sid) (modules st))"

definition COLLISION_MESSAGE :: string where
  "COLLISION_MESSAGE = ''Collision Error! Geometry overlap not permitted.''"

subsection \<open>Identifiers\<close>

text \<open>
  The template literal \<^verbatim>\<open>`${type}-${Date.now()}`\<close>: the type's string, a hyphen and
  the decimal digits of the clock reading.
\<close>

definition digit :: "nat \<Rightarrow> char" where
  "digit d = ''0123456789'' ! d"

fun show_nat :: "nat \<Rightarrow> string" where
  "show_nat n = (if n < 10 then [digit n] else show_nat (n div 10) @ [digit (n mod 10)])"

declare show_nat.simps [simp del]

definition make_id :: "ModuleType \<Rightarrow> nat \<Rightarrow> string" where
  "make_id ty now = type_string ty @ ''-'' @ show_nat now"

subsection \<open>Layout operations\<close>

definition newModule :: "ModuleType \<Rightarrow> nat \<Rightarrow> ModuleData" where
  "newModule ty now =
     (let spec = MODULE_SPECS ty
      in \<lparr>id_m = make_id ty now, type = ty, position = (0, 0, 0), rotation = (0, 0, 0),
          scale = 1, cost = baseCost spec, mass = baseMass spec, volume = baseVolume spec\<rparr>)"

definition addModule :: "ModuleType \<Rightarrow> nat \<Rightarrow> State \<Rightarrow> State" where
  "addModule ty now st =
     (let new = newModule ty now;
          hasCollision =
            list_ex (\<lambda>m. checkAABBCollision (position new) (scale new) (position m) (scale m))
              (modules st)
      in if hasCollision then st\<lparr>collisionError := Some COLLISION_MESSAGE\<rparr>
         else st\<lparr>modules := modules st @ [new], selectedModuleId := Some (id_m new)\<rparr>)"

definition deleteModule :: "string \<Rightarrow> State \<Rightarrow> State" where
  "deleteModule i st =
     (let st' = st\<lparr>modules := filter (\<lambda>m. id_m m \<noteq> i) (modules st)\<rparr>
      in if selectedModuleId st = Some i then st'\<lparr>selectedModuleId := None\<rparr> else st')"

datatype Axis = X | Y | Z

text \<open>\<^verbatim>\<open>v[axisIndex] = value\<close> on a copy of the triple, with
  \<^verbatim>\<open>axisIndex = { x: 0, y: 1, z: 2 }[axis]\<close>.\<close>

fun set_axis :: "vec3 \<Rightarrow> Axis \<Rightarrow> real \<Rightarrow> vec3" where
  "set_axis (x, y, z) X v = (v, y, z)"
| "set_axis (x, y, z) Y v = (x, v, z)"
| "set_axis (x, y, z) Z v = (x, y, v)"

definition updateModulePosition :: "Axis \<Rightarrow> real \<Rightarrow> State \<Rightarrow> State" where
  "updateModulePosition axis v st =
     (case selectedModule st of
        None \<Rightarrow> st
      | Some sel \<Rightarrow>
          (let newPosition = set_axis (position sel) axis v;
               hasCollision =
                 list_ex (\<lambda>m. id_m m \<noteq> id_m sel \<and>
                               checkAABBCollision newPosition (scale sel) (position m) (scale m))
                   (modules st)
           in if hasCollision then st\<lparr>collisionError := Some COLLISION_MESSAGE\<rparr>
              else st\<lparr>modules :=
                     map (\<lambda>m. if id_m m = id_m sel then m\<lparr>position := newPosition\<rparr> else m)
                       (modules st)\<rparr>))"

definition updateModuleRotation :: "Axis \<Rightarrow> real \<Rightarrow> State \<Rightarrow> State" where
  "updateModuleRotation axis degrees st =
     (case selectedModule st of
        None \<Rightarrow> st
      | Some sel \<Rightarrow>
          (let radians = (degrees * pi) / 180;
               newRotation = set_axis (rotation sel) axis radians
           in st\<lparr>modules :=
                  map (\<lambda>m. if id_m m = id_m sel then m\<lparr>rotation := newRotation\<rparr> else m)
                    (modules st)\<rparr>))"

definition updateModuleScale :: "real \<Rightarrow> State \<Rightarrow> State" where
  "updateModuleScale s st =
     (case selectedModule st of
        None \<Rightarrow> st
      | Some sel \<Rightarrow>
          (let hasCollision =
                 list_ex (\<lambda>m. id_m m \<noteq> id_m sel \<and>
                               checkAABBCollision (position sel) s (position m) (scale m))
                   (modules st)
           in if hasCollision then st\<lparr>collisionError := Some COLLISION_MESSAGE\<rparr>
              else
                (let spec = MODULE_SPECS (type sel);
                     volumeRatio = s ^ 3
                 in st\<lparr>modules :=
                        map (\<lambda>m. if id_m m = id_m sel
                                  then m\<lparr>scale := s,
                                         cost := baseCost spec * volumeRatio,
                                         mass := baseMass spec * volumeRatio,
                                         volume := baseVolume spec * volumeRatio\<rparr>
                                  else m)
                          (modules st)\<rparr>)))"

subsection \<open>Derived metrics\<close>

text \<open>
  Each \<^verbatim>\<open>modules.reduce((sum, m) => sum + m.f, 0)\<close> is a left fold from 0. The
  memoised values are functions of the state.
\<close>

definition COST_PER_KG_TO_MARS :: real where
  "COST_PER_KG_TO_MARS = 75000"

definition BASE_HABITAT_MASS :: real where
  "BASE_HABITAT_MASS = 10000"

definition totalHardwareCost :: "State \<Rightarrow> real" where
  "totalHardwareCost st = foldl (\<lambda>sum m. sum + cost m) 0 (modules st)"

definition totalMass :: "State \<Rightarrow> real" where
  "totalMass st = BASE_HABITAT_MASS + foldl (\<lambda>sum m. sum + mass m) 0 (modules st)"

definition totalLaunchCost :: "State \<Rightarrow> real" where
  "totalLaunchCost st = (totalMass st * COST_PER_KG_TO_MARS) / 1000000"

definition totalCost :: "State \<Rightarrow> real" where
  "totalCost st = totalHardwareCost st + totalLaunchCost st"

definition totalVolume :: "State \<Rightarrow> real" where
  "totalVolume st = foldl (\<lambda>sum m. sum + volume m) 0 (modules st)"

record RadiationShielding =
  score :: real
  required :: real
  pass :: bool

definition radiationShielding :: "State \<Rightarrow> RadiationShielding" where
  "radiationShielding st =
     (let shieldingScore = real (length (modules st)) * 15 + totalMass st / 1000;
          required = 200
      in \<lparr>score = shieldingScore, required = required, pass = (shieldingScore \<ge> required)\<rparr>)"

record StructuralLoad =
  pressure :: real
  limit :: real
  pass :: bool

definition structuralLoad :: "State \<Rightarrow> StructuralLoad" where
  "structuralLoad st =
     (let pressure = (totalMass st / 100) * 1.5;
          limit = 350
      in \<lparr>pressure = pressure, limit = limit, pass = (pressure \<le> limit)\<rparr>)"

record NhvCompliance =
  actual :: real
  required :: real
  pass :: bool

definition nhvCompliance :: "State \<Rightarrow> NhvCompliance" where
  "nhvCompliance st =
     (let required = 115.83
      in \<lparr>actual = totalVolume st, required = required, pass = (totalVolume st \<ge> required)\<rparr>)"

text \<open>\<^verbatim>\<open>Math.round\<close>: the nearest integer, a half rounded up.\<close>

definition Math_round :: "real \<Rightarrow> int" where
  "Math_round x = \<lfloor>x + 1 / 2\<rfloor>"

record Logistics =
  vehicle :: string
  launchWindow :: string
  secondaryWindow :: string
  structureMass :: int
  payloadMass :: int
  propellantMass :: int
  totalDeliveryMass :: int

definition logistics :: "State \<Rightarrow> Logistics" where
  "logistics st =
     (let dryMass = totalMass st;
          propellantMass = dryMass * 4;
          totalDeliveryMass = dryMass + propellantMass
      in \<lparr>vehicle = (if totalMass st > 50000 then ''Starship HLS Variant''
                     else ''Ares V Heavy Lift''),
          launchWindow = ''2031 Q1'',
          secondaryWindow = ''2033 Q3'',
          structureMass = Math_round (dryMass * 0.6),
          payloadMass = Math_round (dryMass * 0.4),
          propellantMass = Math_round propellantMass,
          totalDeliveryMass = Math_round totalDeliveryMass\<rparr>)"

text \<open>Whether a vehicle label names a heavy-lift vehicle: its text contains \<^verbatim>\<open>Heavy Lift\<close>.\<close>

fun contains_text :: "string \<Rightarrow> string \<Rightarrow> bool" where
  "contains_text p [] = (p = [])"
| "contains_text p (c # cs) = (take (length p) (c # cs) = p \<or> contains_text p cs)"

definition names_heavy_lift :: "string \<Rightarrow> bool" where
  "names_heavy_lift label = contains_text ''Heavy Lift'' label"

subsection \<open>Save and load\<close>

text \<open>
  \<^verbatim>\<open>JSON.stringify\<close> and \<^verbatim>\<open>JSON.parse\<close> belong to the JavaScript runtime. They
  are modelled by their effect on values: \<open>js\<close> is a JavaScript value (an object is
  the list of its properties in order), \<open>json\<close> is a JSON document, and a JSON text is
  represented by the document it denotes. \<^verbatim>\<open>JSON.stringify\<close> gives no text for
  \<^verbatim>\<open>undefined\<close>, leaves a property out whose value is \<^verbatim>\<open>undefined\<close> and writes
  \<^verbatim>\<open>null\<close> for such an array element; \<^verbatim>\<open>JSON.parse\<close> builds an object by
  setting the properties in order, so that a repeated key keeps its place and takes the
  last value.
\<close>

datatype js =
    VUndefined | VNull | VBool bool | VNum real | VStr string
  | VArr "js list" | VObj "(string \<times> js) list"

datatype json =
    JNull | JBool bool | JNum real | JStr string
  | JArr "json list" | JObj "(string \<times> json) list"

fun stringify_value :: "js \<Rightarrow> json option"
  and stringify_elements :: "js list \<Rightarrow> json list"
  and stringify_properties :: "(string \<times> js) list \<Rightarrow> (string \<times> json) list" where
  "stringify_value VUndefined = None"
| "stringify_value VNull = Some JNull"
| "stringify_value (VBool b) = Some (JBool b)"
| "stringify_value (VNum x) = Some (JNum x)"
| "stringify_value (VStr s) = Some (JStr s)"
| "stringify_value (VArr xs) = Some (JArr (stringify_elements xs))"
| "stringify_value (VObj ps) = Some (JObj (stringify_properties ps))"
| "stringify_elements [] = []"
| "stringify_elements (x # xs) =
     (case stringify_value x of None \<Rightarrow> JNull | Some j \<Rightarrow> j) # stringify_elements xs"
| "stringify_properties [] = []"
| "stringify_properties ((k, v) # ps) =
     (case stringify_value v of
        None \<Rightarrow> stringify_properties ps
      | Some j \<Rightarrow> (k, j) # stringify_properties ps)"

fun set_property :: "string \<Rightarrow> js \<Rightarrow> (string \<times> js) list \<Rightarrow> (string \<times> js) list" where
  "set_property k v [] = [(k, v)]"
| "set_property k v ((k', v') # ps) =
     (if k' = k then (k', v) # ps else (k', v') # set_property k v ps)"

definition build_object :: "(string \<times> js) list \<Rightarrow> (string \<times> js) list" where
  "build_object ps = foldl (\<lambda>obj (k, v). set_property k v obj) [] ps"

fun parse_value :: "json \<Rightarrow> js"
  and parse_elements :: "json list \<Rightarrow> js list"
  and parse_properties :: "(string \<times> json) list \<Rightarrow> (string \<times> js) list" where
  "parse_value JNull = VNull"
| "parse_value (JBool b) = VBool b"
| "parse_value (JNum x) = VNum x"
| "parse_value (JStr s) = VStr s"
| "parse_value (JArr xs) = VArr (parse_elements xs)"
| "parse_value (JObj fs) = VObj (build_object (parse_properties fs))"
| "parse_elements [] = []"
| "parse_elements (x # xs) = parse_value x # parse_elements xs"
| "parse_properties [] = []"
| "parse_properties ((k, j) # fs) = (k, parse_value j) # parse_properties fs"

text \<open>
  Reading a property: of \<^verbatim>\<open>undefined\<close> and \<^verbatim>\<open>null\<close> it throws (\<^const>\<open>None\<close>),
  of an object it gives the value or \<^verbatim>\<open>undefined\<close>, of any other value
  \<^verbatim>\<open>undefined\<close> (the model reads only the names \<^verbatim>\<open>modules\<close> and
  \<^verbatim>\<open>timestamp\<close>, which no prototype defines).
\<close>

fun get_property :: "js \<Rightarrow> string \<Rightarrow> js option" where
  "get_property VUndefined k = None"
| "get_property VNull k = None"
| "get_property (VObj ps) k = Some (case map_of ps k of None \<Rightarrow> VUndefined | Some v \<Rightarrow> v)"
| "get_property v k = Some VUndefined"

text \<open>
  The value that a module, a module list and the component state are in JavaScript. The
  properties of a module are in the order of the object literal of \<^verbatim>\<open>addModule\<close>.
\<close>

fun js_of_vec3 :: "vec3 \<Rightarrow> js" where
  "js_of_vec3 (x, y, z) = VArr [VNum x, VNum y, VNum z]"

definition js_of_module :: "ModuleData \<Rightarrow> js" where
  "js_of_module m =
     VObj [(''id'', VStr (id_m m)), (''type'', VStr (type_string (type m))),
           (''position'', js_of_vec3 (position m)), (''rotation'', js_of_vec3 (rotation m)),
           (''scale'', VNum (scale m)), (''cost'', VNum (cost m)), (''mass'', VNum (mass m)),
           (''volume'', VNum (volume m))]"

definition js_of_modules :: "ModuleData list \<Rightarrow> js" where
  "js_of_modules ms = VArr (map js_of_module ms)"

record JsState =
  modules_js :: js
  selectedModuleId_js :: "string option"
  collisionError_js :: "string option"

definition js_of_state :: "State \<Rightarrow> JsState" where
  "js_of_state st =
     \<lparr>modules_js = js_of_modules (modules st), selectedModuleId_js = selectedModuleId st,
      collisionError_js = collisionError st\<rparr>"

text \<open>
  \<^verbatim>\<open>localStorage\<close> maps a key to a text: the empty text, a text that
  \<^verbatim>\<open>JSON.parse\<close> rejects, or a JSON text. The time stamp
  \<^verbatim>\<open>new Date().toISOString()\<close> is a parameter. Each function also returns the
  alert it shows; the alert after a load carries the value of the record's
  \<^verbatim>\<open>timestamp\<close>. \<^verbatim>\<open>loadDesign\<close> passes whatever \<^verbatim>\<open>designData.modules\<close> is
  to \<^verbatim>\<open>setModules\<close>, so the state it returns holds a JavaScript value for the
  module list.
\<close>

datatype StoredText = EmptyText | NotJSON | Document json

datatype Alert = Saved | Loaded js | LoadFailed | NoSavedDesign

definition STORAGE_KEY :: string where
  "STORAGE_KEY = ''mars-architect-design''"


definition loadDesign :: "(string \<rightharpoonup> StoredText) \<Rightarrow> State \<Rightarrow> JsState \<times> Alert" where
  "loadDesign storage st =
     (case storage STORAGE_KEY of
        None \<Rightarrow> (js_of_state st, NoSavedDesign)
      | Some EmptyText \<Rightarrow> (js_of_state st, NoSavedDesign)
      | Some NotJSON \<Rightarrow> (js_of_state st, LoadFailed)
      | Some (Document d) \<Rightarrow>
          (let designData = parse_value d
           in case get_property designData ''modules'' of
                None \<Rightarrow> (js_of_state st, LoadFailed)
              | Some loaded \<Rightarrow>
                  ((js_of_state st)\<lparr>modules_js := loaded, selectedModuleId_js := None\<rparr>,
                   case get_property designData ''timestamp'' of
                     None \<Rightarrow> LoadFailed
                   | Some t \<Rightarrow> Loaded t)))"


subsection \<open>Reading an identifier back\<close>

definition digit_value :: "char \<Rightarrow> nat" where
  "digit_value c = of_char c - 48"

definition read_nat :: "string \<Rightarrow> nat" where
  "read_nat cs = foldl (\<lambda>a c. 10 * a + digit_value c) 0 cs"

subsection \<open>Example states\<close>

text \<open>A dormitory at \<open>x = 10\<close> and the selected ECLSS module at \<open>x = 5\<close>.\<close>

definition two_eclss :: ModuleData where
  "two_eclss =
     \<lparr>id_m = ''eclss-2'', type = Eclss, position = (5, 0, 0), rotation = (0, 0, 0),
      scale = 1, cost = 150, mass = 12000, volume = 80\<rparr>"

definition two_modules :: State where
  "two_modules =
     \<lparr>modules =
        [\<lparr>id_m = ''dormitory-1'', type = Dormitory, position = (10, 0, 0), rotation = (0, 0, 0),
          scale = 1, cost = 45, mass = 8000, volume = 120\<rparr>,
         two_eclss],
      selectedModuleId = Some ''eclss-2'', collisionError = None\<rparr>"

text \<open>A dormitory at the origin and the selected ECLSS module at \<open>x = 2.5\<close>.\<close>

definition near_eclss :: ModuleData where
  "near_eclss =
     \<lparr>id_m = ''eclss-2'', type = Eclss, position = (2.5, 0, 0), rotation = (0, 0, 0),
      scale = 1, cost = 150, mass = 12000, volume = 80\<rparr>"

definition near_modules :: State where
  "near_modules =
     \<lparr>modules =
        [\<lparr>id_m = ''dormitory-1'', type = Dormitory, position = (0, 0, 0), rotation = (0, 0, 0),
          scale = 1, cost = 45, mass = 8000, volume = 120\<rparr>,
         near_eclss],
      selectedModuleId = Some ''eclss-2'', collisionError = None\<rparr>"

text \<open>
  A dormitory is added at clock reading 5 and moved to \<open>x = 10\<close>; \<open>moved_state\<close> is
  the state then. A second dormitory added at the same clock reading gives
  \<open>clash_state\<close>.
\<close>

definition moved_state :: State where
  "moved_state = updateModulePosition X 10 (addModule Dormitory 5 initial_state)"

definition clash_state :: State where
  "clash_state = addModule Dormitory 5 moved_state"

text \<open>
  The example scenario: a dormitory is added and moved to \<open>x = 10\<close>, then an ECLSS
  module is added.
\<close>

definition example_state :: State where
  "example_state =
     addModule Eclss 2 (updateModulePosition X 10 (addModule Dormitory 1 initial_state))"

text \<open>A layout of one laboratory module with the given mass and volume.\<close>

definition lone_state :: "real \<Rightarrow> real \<Rightarrow> State" where
  "lone_state ma vol =
     \<lparr>modules =
        [\<lparr>id_m = ''lab-1'', type = Lab, position = (0, 0, 0), rotation = (0, 0, 0),
          scale = 1, cost = 85, mass = ma, volume = vol\<rparr>],
      selectedModuleId = None, collisionError = None\<rparr>"

section \<open>The collision predicate\<close>

lemma checkAABBCollision_iff:
  "checkAABBCollision (x1, y1, z1) s1 (x2, y2, z2) s2 =
     (\<bar>x1 - x2\<bar> < (2 * s1 + 2 * s2) / 2 \<and>
      \<bar>y1 - y2\<bar> < (2 * s1 + 2 * s2) / 2 \<and>
      \<bar>z1 - z2\<bar> < (2 * s1 + 2 * s2) / 2)"
  by (auto simp: checkAABBCollision_def)

lemma checkAABBCollision_sym:
  "checkAABBCollision p1 s1 p2 s2 = checkAABBCollision p2 s2 p1 s1"
  by (cases p1, cases p2) (auto simp: checkAABBCollision_def)

lemma collides_sym: "collides m1 m2 = collides m2 m1"
  unfolding collides_def by (rule checkAABBCollision_sym)

lemma collides_rotation:
  "collides (m1\<lparr>rotation := r1\<rparr>) (m2\<lparr>rotation := r2\<rparr>) = collides m1 m2"
  by (simp add: collides_def)

text \<open>
  C2. \<^verbatim>\<open>checkAABBCollision\<close> is true exactly when, on each of the three axes, the
  distance of the two centres is less than \<open>(E * s1 + E * s2) / 2\<close> with \<open>E = 2\<close>;
  the predicate is symmetric in its two modules, and the rotation of neither module
  enters it.
\<close>

theorem checkAABBCollision_spec:
  "checkAABBCollision (x1, y1, z1) s1 (x2, y2, z2) s2 =
     (\<bar>x1 - x2\<bar> < (2 * s1 + 2 * s2) / 2 \<and>
      \<bar>y1 - y2\<bar> < (2 * s1 + 2 * s2) / 2 \<and>
      \<bar>z1 - z2\<bar> < (2 * s1 + 2 * s2) / 2) \<and>
   checkAABBCollision p1 t1 p2 t2 = checkAABBCollision p2 t2 p1 t1 \<and>
   collides m1 m2 = collides m2 m1 \<and>
   collides (m1\<lparr>rotation := r1\<rparr>) (m2\<lparr>rotation := r2\<rparr>) = collides m1 m2"
  using checkAABBCollision_iff checkAABBCollision_sym collides_sym collides_rotation
  by blast

section \<open>The non-overlap invariant\<close>

lemma no_overlap_append:
  "no_overlap (ms @ [n]) = (no_overlap ms \<and> \<not> list_ex (\<lambda>m. collides m n) ms)"
  by (induction ms) (auto simp: list_ex_iff)

lemma no_overlap_filter: "no_overlap ms \<Longrightarrow> no_overlap (filter P ms)"
  by (induction ms) (auto simp: list_ex_iff)

lemma no_overlap_map_same_geometry:
  assumes "\<And>m. position (f m) = position m \<and> scale (f m) = scale m"
  shows "no_overlap (map f ms) = no_overlap ms"
  using assms by (induction ms) (auto simp: list_ex_iff collides_def)

text \<open>The recursive invariant says that no two entries of the list collide.\<close>

lemma no_overlap_nth:
  "no_overlap ms =
     (\<forall>i<length ms. \<forall>j<length ms. i \<noteq> j \<longrightarrow> \<not> collides (ms ! i) (ms ! j))"
proof (induction ms)
  case Nil
  show ?case by simp
next
  case (Cons m ms)
  show ?case (is "?L = ?R")
  proof
    assume L: ?L
    show ?R
    proof (intro allI impI)
      fix i j
      assume "i < length (m # ms)" "j < length (m # ms)" "i \<noteq> j"
      then show "\<not> collides ((m # ms) ! i) ((m # ms) ! j)"
        using L Cons.IH
        by (cases i; cases j) (auto simp: list_ex_iff collides_sym[of _ m])
    qed
  next
    assume R: ?R
    have "\<not> collides m n" if "n \<in> set ms" for n
    proof -
      from that obtain k where "k < length ms" "ms ! k = n"
        by (auto simp: in_set_conv_nth)
      with R[rule_format, of 0 "Suc k"] show ?thesis by simp
    qed
    moreover have "no_overlap ms"
      unfolding Cons.IH
    proof (intro allI impI)
      fix i j
      assume "i < length ms" "j < length ms" "i \<noteq> j"
      with R[rule_format, of "Suc i" "Suc j"] show "\<not> collides (ms ! i) (ms ! j)"
        by simp
    qed
    ultimately show ?L by (auto simp: list_ex_iff)
  qed
qed

text \<open>
  Replacing the geometry of the one module that carries a given id keeps the invariant
  when the new geometry was checked against every module of another id.
\<close>

lemma no_overlap_map_update:
  assumes "distinct (map id_m ms)" and "no_overlap ms"
    and geo: "\<And>m. m \<in> set ms \<Longrightarrow> id_m m = sid \<Longrightarrow> position (u m) = p \<and> scale (u m) = s"
    and chk: "\<not> list_ex (\<lambda>m. id_m m \<noteq> sid \<and> checkAABBCollision p s (position m) (scale m)) ms"
  shows "no_overlap (map (\<lambda>m. if id_m m = sid then u m else m) ms)"
  using assms
proof (induction ms)
  case Nil
  show ?case by simp
next
  case (Cons m ms)
  let ?g = "\<lambda>m. if id_m m = sid then u m else m"
  have IH: "no_overlap (map ?g ms)"
    using Cons by (auto simp: list_ex_iff)
  have free: "\<not> checkAABBCollision p s (position n) (scale n)"
    if "n \<in> set (m # ms)" "id_m n \<noteq> sid" for n
    using Cons.prems(4) that by (auto simp: list_ex_iff)
  show ?case
  proof (cases "id_m m = sid")
    case True
    then have other: "id_m n \<noteq> sid" if "n \<in> set ms" for n
      using Cons.prems(1) that True by (auto simp: image_iff)
    then have same: "map ?g ms = ms"
      by (simp add: map_idI)
    have g: "position (u m) = p" "scale (u m) = s"
      using Cons.prems(3)[of m] True by auto
    have "\<not> collides (u m) n" if "n \<in> set ms" for n
      using free[of n] other[OF that] that g by (simp add: collides_def)
    then show ?thesis
      using True same Cons.prems(2) by (auto simp: list_ex_iff)
  next
    case False
    have "\<not> collides m (?g n)" if n: "n \<in> set ms" for n
    proof (cases "id_m n = sid")
      case True
      have "position (u n) = p" "scale (u n) = s"
        using Cons.prems(3)[of n] True n by auto
      then have "collides (u n) m = checkAABBCollision p s (position m) (scale m)"
        by (simp add: collides_def)
      with free[of m] False True show ?thesis
        by (simp add: collides_sym[of m])
    next
      case F: False
      with Cons.prems(2) n show ?thesis by (auto simp: list_ex_iff)
    qed
    then have "\<not> list_ex (collides m) (map ?g ms)"
      unfolding list_ex_iff set_map by blast
    with IH False show ?thesis by simp
  qed
qed

lemma find_Some_mem: "find P xs = Some x \<Longrightarrow> x \<in> set xs \<and> P x"
  by (induction xs) (auto split: if_splits)

lemma selectedModule_Some:
  "selectedModule st = Some sel \<Longrightarrow>
     sel \<in> set (modules st) \<and> selectedModuleId st = Some (id_m sel)"
  by (auto simp: selectedModule_def split: option.splits dest: find_Some_mem)

lemma distinct_ids_eq:
  "distinct (map id_m ms) \<Longrightarrow> m \<in> set ms \<Longrightarrow> n \<in> set ms \<Longrightarrow> id_m m = id_m n \<Longrightarrow> m = n"
  by (meson distinct_map inj_onD)

lemma no_overlap_addModule:
  "no_overlap (modules st) \<Longrightarrow> no_overlap (modules (addModule ty now st))"
  by (auto simp: addModule_def Let_def no_overlap_append list_ex_iff collides_def
        checkAABBCollision_sym[of _ _ "position (newModule ty now)"])

lemma no_overlap_deleteModule:
  "no_overlap (modules st) \<Longrightarrow> no_overlap (modules (deleteModule i st))"
  by (simp add: deleteModule_def Let_def no_overlap_filter)

lemma no_overlap_updateModuleRotation:
  "no_overlap (modules st) \<Longrightarrow> no_overlap (modules (updateModuleRotation axis d st))"
  by (simp add: updateModuleRotation_def Let_def no_overlap_map_same_geometry
        split: option.splits)

lemma no_overlap_updateModulePosition:
  assumes "distinct (map id_m (modules st))" and "no_overlap (modules st)"
  shows "no_overlap (modules (updateModulePosition axis v st))"
proof (cases "selectedModule st")
  case None
  with assms show ?thesis by (simp add: updateModulePosition_def)
next
  case (Some sel)
  let ?p = "set_axis (position sel) axis v"
  let ?c = "list_ex (\<lambda>m. id_m m \<noteq> id_m sel \<and>
              checkAABBCollision ?p (scale sel) (position m) (scale m)) (modules st)"
  show ?thesis
  proof (cases ?c)
    case True
    with Some assms show ?thesis by (simp add: updateModulePosition_def Let_def)
  next
    case False
    have sel: "sel \<in> set (modules st)" using Some by (simp add: selectedModule_Some)
    have "no_overlap
            (map (\<lambda>m. if id_m m = id_m sel then m\<lparr>position := ?p\<rparr> else m) (modules st))"
    proof (rule no_overlap_map_update[where p = ?p and s = "scale sel"])
      fix m
      assume "m \<in> set (modules st)" "id_m m = id_m sel"
      then have "m = sel" using assms(1) sel by (auto dest: distinct_ids_eq)
      then show "position (m\<lparr>position := ?p\<rparr>) = ?p \<and> scale (m\<lparr>position := ?p\<rparr>) = scale sel"
        by simp
    qed (use assms False in auto)
    with Some False show ?thesis by (simp add: updateModulePosition_def Let_def)
  qed
qed

lemma no_overlap_updateModuleScale:
  assumes "distinct (map id_m (modules st))" and "no_overlap (modules st)"
  shows "no_overlap (modules (updateModuleScale s st))"
proof (cases "selectedModule st")
  case None
  with assms show ?thesis by (simp add: updateModuleScale_def)
next
  case (Some sel)
  let ?c = "list_ex (\<lambda>m. id_m m \<noteq> id_m sel \<and>
              checkAABBCollision (position sel) s (position m) (scale m)) (modules st)"
  show ?thesis
  proof (cases ?c)
    case True
    with Some assms show ?thesis by (simp add: updateModuleScale_def Let_def)
  next
    case False
    let ?u = "\<lambda>m. m\<lparr>scale := s, cost := baseCost (MODULE_SPECS (type sel)) * s ^ 3,
                     mass := baseMass (MODULE_SPECS (type sel)) * s ^ 3,
                     volume := baseVolume (MODULE_SPECS (type sel)) * s ^ 3\<rparr>"
    have sel: "sel \<in> set (modules st)" using Some by (simp add: selectedModule_Some)
    have "no_overlap (map (\<lambda>m. if id_m m = id_m sel then ?u m else m) (modules st))"
    proof (rule no_overlap_map_update[where p = "position sel" and s = s])
      fix m
      assume "m \<in> set (modules st)" "id_m m = id_m sel"
      then have "m = sel" using assms(1) sel by (auto dest: distinct_ids_eq)
      then show "position (?u m) = position sel \<and> scale (?u m) = s"
        by simp
    qed (use assms False in auto)
    with Some False show ?thesis by (simp add: updateModuleScale_def Let_def)
  qed
qed

lemma show_nat_digit: "n < 10 \<Longrightarrow> show_nat n = [digit n]"
  by (simp add: show_nat.simps)

lemma make_id_example: "make_id Lab 1730000000000 = ''lab-1730000000000''"
  by (simp add: make_id_def show_nat.simps digit_def)

text \<open>
  Adding, deleting and rotating keep the invariant in every layout; moving and rescaling
  keep it in a layout whose ids are pairwise distinct (a rejected operation leaves the
  layout as it was, so no case for success is needed).
\<close>

lemma no_overlap_operations:
  assumes "no_overlap (modules st)"
  shows "no_overlap (modules (addModule ty now st)) \<and>
         no_overlap (modules (deleteModule i st)) \<and>
         no_overlap (modules (updateModuleRotation axis' d st)) \<and>
         (distinct (map id_m (modules st)) \<longrightarrow>
            no_overlap (modules (updateModulePosition axis v st)) \<and>
            no_overlap (modules (updateModuleScale s st)))"
  using assms
  by (simp add: no_overlap_addModule no_overlap_deleteModule no_overlap_updateModulePosition
        no_overlap_updateModuleRotation no_overlap_updateModuleScale)

text \<open>
  The five operations at the state \<open>two_modules\<close>; each of them succeeds there.
\<close>

lemma two_modules_selected: "selectedModule two_modules = Some two_eclss"
  by (simp add: selectedModule_def two_modules_def two_eclss_def)

lemma no_overlap_operations_example:
  "distinct (map id_m (modules two_modules)) \<and> no_overlap (modules two_modules) \<and>
   no_overlap (modules (addModule Lab 3 two_modules)) \<and>
   no_overlap (modules (deleteModule ''dormitory-1'' two_modules)) \<and>
   no_overlap (modules (updateModulePosition X 7 two_modules)) \<and>
   no_overlap (modules (updateModuleRotation Y 90 two_modules)) \<and>
   no_overlap (modules (updateModuleScale 2 two_modules)) \<and>
   map id_m (modules (addModule Lab 3 two_modules)) = [''dormitory-1'', ''eclss-2'', ''lab-3''] \<and>
   map id_m (modules (deleteModule ''dormitory-1'' two_modules)) = [''eclss-2''] \<and>
   map position (modules (updateModulePosition X 7 two_modules)) = [(10, 0, 0), (7, 0, 0)] \<and>
   map rotation (modules (updateModuleRotation Y 90 two_modules)) = [(0, 0, 0), (0, pi / 2, 0)] \<and>
   map scale (modules (updateModuleScale 2 two_modules)) = [1, 2]"
proof -
  have d: "distinct (map id_m (modules two_modules))"
    by (simp add: two_modules_def two_eclss_def)
  have n: "no_overlap (modules two_modules)"
    by (simp add: two_modules_def two_eclss_def collides_def checkAABBCollision_def)
  have "map id_m (modules (addModule Lab 3 two_modules)) = [''dormitory-1'', ''eclss-2'', ''lab-3'']"
    by (simp add: addModule_def two_modules_def two_eclss_def Let_def newModule_def
          checkAABBCollision_def make_id_def show_nat_digit digit_def)
  moreover have "map id_m (modules (deleteModule ''dormitory-1'' two_modules)) = [''eclss-2'']"
    by (simp add: deleteModule_def two_modules_def two_eclss_def)
  moreover have "map position (modules (updateModulePosition X 7 two_modules)) = [(10, 0, 0), (7, 0, 0)]"
    by (simp add: updateModulePosition_def two_modules_selected Let_def)
       (simp add: two_modules_def two_eclss_def checkAABBCollision_def)
  moreover have "map rotation (modules (updateModuleRotation Y 90 two_modules)) = [(0, 0, 0), (0, pi / 2, 0)]"
    by (simp add: updateModuleRotation_def two_modules_selected Let_def)
       (simp add: two_modules_def two_eclss_def)
  moreover have "map scale (modules (updateModuleScale 2 two_modules)) = [1, 2]"
    by (simp add: updateModuleScale_def two_modules_selected Let_def)
       (simp add: two_modules_def two_eclss_def checkAABBCollision_def)
  ultimately show ?thesis
    using d n no_overlap_operations[OF n, of Lab 3 "''dormitory-1''" Y 90 X 7 2]
    by simp
qed

text \<open>
  The states \<open>moved_state\<close> and \<open>clash_state\<close>: \<^verbatim>\<open>addModule\<close> at one clock
  reading for one type twice gives two modules the same id.
\<close>

lemma moved_state_eq:
  "moved_state =
     \<lparr>modules =
        [\<lparr>id_m = ''dormitory-5'', type = Dormitory, position = (10, 0, 0), rotation = (0, 0, 0),
          scale = 1, cost = 45, mass = 8000, volume = 120\<rparr>],
      selectedModuleId = Some ''dormitory-5'', collisionError = None\<rparr>"
  by (simp add: moved_state_def addModule_def updateModulePosition_def initial_state_def
        selectedModule_def newModule_def make_id_def show_nat_digit digit_def Let_def
        checkAABBCollision_def)

lemma clash_state_eq:
  "clash_state =
     \<lparr>modules =
        [\<lparr>id_m = ''dormitory-5'', type = Dormitory, position = (10, 0, 0), rotation = (0, 0, 0),
          scale = 1, cost = 45, mass = 8000, volume = 120\<rparr>,
         \<lparr>id_m = ''dormitory-5'', type = Dormitory, position = (0, 0, 0), rotation = (0, 0, 0),
          scale = 1, cost = 45, mass = 8000, volume = 120\<rparr>],
      selectedModuleId = Some ''dormitory-5'', collisionError = None\<rparr>"
  by (simp add: clash_state_def moved_state_eq addModule_def
        newModule_def make_id_def show_nat_digit digit_def Let_def
        checkAABBCollision_def)

text \<open>
  C1. Every successful mutating operation is to leave a layout in which no two modules
  overlap. In \<open>clash_state\<close>, which the operations reach from the initial state and
  in which no two modules overlap, \<^verbatim>\<open>updateModulePosition\<close> leaves both modules of
  the selected id out of its check, reports no collision and moves both to the one new
  position: the layout it leaves has two overlapping modules.
\<close>

theorem non_overlap_lost_by_shared_id:
  "no_overlap (modules clash_state) \<and>
   collisionError (updateModulePosition X 5 clash_state) = None \<and>
   map position (modules (updateModulePosition X 5 clash_state)) = [(5, 0, 0), (5, 0, 0)] \<and>
   \<not> no_overlap (modules (updateModulePosition X 5 clash_state))"
  by (simp add: clash_state_eq updateModulePosition_def selectedModule_def Let_def
        collides_def checkAABBCollision_def)


section \<open>Rejection on collision\<close>

text \<open>
  What the code rejects: when the candidate of \<^verbatim>\<open>addModule\<close> collides with an existing
  module, or the candidate of \<^verbatim>\<open>updateModulePosition\<close> or \<^verbatim>\<open>updateModuleScale\<close>
  collides with a module whose id is not the selected module's, the operation reports
  the one collision message and changes nothing else.
\<close>

lemma collision_atomic:
  "((\<exists>m\<in>set (modules st). checkAABBCollision (0, 0, 0) 1 (position m) (scale m)) \<longrightarrow>
      addModule ty now st = st\<lparr>collisionError := Some COLLISION_MESSAGE\<rparr>) \<and>
   (selectedModule st = Some sel \<and>
    (\<exists>m\<in>set (modules st). id_m m \<noteq> id_m sel \<and>
       checkAABBCollision (set_axis (position sel) axis v) (scale sel) (position m) (scale m)) \<longrightarrow>
      updateModulePosition axis v st = st\<lparr>collisionError := Some COLLISION_MESSAGE\<rparr>) \<and>
   (selectedModule st = Some sel \<and>
    (\<exists>m\<in>set (modules st). id_m m \<noteq> id_m sel \<and>
       checkAABBCollision (position sel) s (position m) (scale m)) \<longrightarrow>
      updateModuleScale s st = st\<lparr>collisionError := Some COLLISION_MESSAGE\<rparr>)"
  by (auto simp: addModule_def updateModulePosition_def updateModuleScale_def Let_def
        newModule_def list_ex_iff)

lemma near_selected: "selectedModule near_modules = Some near_eclss"
  by (simp add: selectedModule_def near_modules_def near_eclss_def)

lemma collision_atomic_example:
  "(\<exists>m\<in>set (modules near_modules). checkAABBCollision (0, 0, 0) 1 (position m) (scale m)) \<and>
   addModule Lab 3 near_modules = near_modules\<lparr>collisionError := Some COLLISION_MESSAGE\<rparr> \<and>
   selectedModule near_modules = Some near_eclss \<and>
   (\<exists>m\<in>set (modules near_modules). id_m m \<noteq> id_m near_eclss \<and>
       checkAABBCollision (set_axis (position near_eclss) X 1) (scale near_eclss)
         (position m) (scale m)) \<and>
   updateModulePosition X 1 near_modules =
     near_modules\<lparr>collisionError := Some COLLISION_MESSAGE\<rparr> \<and>
   (\<exists>m\<in>set (modules near_modules). id_m m \<noteq> id_m near_eclss \<and>
       checkAABBCollision (position near_eclss) 2 (position m) (scale m)) \<and>
   updateModuleScale 2 near_modules = near_modules\<lparr>collisionError := Some COLLISION_MESSAGE\<rparr> \<and>
   modules (near_modules\<lparr>collisionError := Some COLLISION_MESSAGE\<rparr>) = modules near_modules \<and>
   selectedModuleId (near_modules\<lparr>collisionError := Some COLLISION_MESSAGE\<rparr>) =
     selectedModuleId near_modules"
proof -
  have a: "\<exists>m\<in>set (modules near_modules). checkAABBCollision (0, 0, 0) 1 (position m) (scale m)"
    by (simp add: near_modules_def checkAABBCollision_def)
  have p: "\<exists>m\<in>set (modules near_modules). id_m m \<noteq> id_m near_eclss \<and>
       checkAABBCollision (set_axis (position near_eclss) X 1) (scale near_eclss)
         (position m) (scale m)"
    by (simp add: near_modules_def near_eclss_def checkAABBCollision_def)
  have s: "\<exists>m\<in>set (modules near_modules). id_m m \<noteq> id_m near_eclss \<and>
       checkAABBCollision (position near_eclss) 2 (position m) (scale m)"
    by (simp add: near_modules_def near_eclss_def checkAABBCollision_def)
  have u: "modules (near_modules\<lparr>collisionError := Some COLLISION_MESSAGE\<rparr>) = modules near_modules"
    "selectedModuleId (near_modules\<lparr>collisionError := Some COLLISION_MESSAGE\<rparr>) =
       selectedModuleId near_modules"
    by simp_all
  show ?thesis
    using a p s u near_selected
      collision_atomic[of near_modules Lab 3 near_eclss X 1 2]
    by blast
qed

text \<open>
  C3. An update whose candidate geometry overlaps another existing module is to fail
  with the collision report and leave the layout as it was. In \<open>clash_state\<close> the
  selected module is the first of the list; moved to \<open>x = 1\<close>, or rescaled to 20, it
  overlaps the second module, which carries the same id. Both updates are accepted
  with no collision report and rewrite both modules.
\<close>

theorem collision_accepted_by_shared_id:
  "selectedModule clash_state = Some (hd (modules clash_state)) \<and>
   length (modules clash_state) = 2 \<and>
   checkAABBCollision (set_axis (position (hd (modules clash_state))) X 1)
     (scale (hd (modules clash_state)))
     (position (last (modules clash_state))) (scale (last (modules clash_state))) \<and>
   collisionError (updateModulePosition X 1 clash_state) = None \<and>
   map position (modules (updateModulePosition X 1 clash_state)) = [(1, 0, 0), (1, 0, 0)] \<and>
   checkAABBCollision (position (hd (modules clash_state))) 20
     (position (last (modules clash_state))) (scale (last (modules clash_state))) \<and>
   collisionError (updateModuleScale 20 clash_state) = None \<and>
   map scale (modules (updateModuleScale 20 clash_state)) = [20, 20] \<and>
   map position (modules (updateModuleScale 20 clash_state)) = [(10, 0, 0), (0, 0, 0)]"
  by (simp add: clash_state_eq updateModulePosition_def updateModuleScale_def
        selectedModule_def Let_def checkAABBCollision_def)

section \<open>Rescaling\<close>

lemma find_map_update:
  assumes "\<And>m. P (f m) = P m"
  shows "find P (map f ms) = map_option f (find P ms)"
  using assms by (induction ms) auto

lemma map_id_update:
  assumes "\<And>m. id_m (f m) = id_m m"
  shows "map id_m (map (\<lambda>m. if id_m m = sid then f m else m) ms) = map id_m ms"
  using assms by (induction ms) auto

lemma filter_others_update:
  assumes "\<And>m. id_m (f m) = id_m m"
  shows "filter (\<lambda>m. id_m m \<noteq> sid) (map (\<lambda>m. if id_m m = sid then f m else m) ms) =
         filter (\<lambda>m. id_m m \<noteq> sid) ms"
  using assms by (induction ms) auto

text \<open>
  C4. When a module is selected and the candidate scale \<open>s\<close> collides with no module
  of another id, \<^verbatim>\<open>updateModuleScale\<close> leaves the selected module with scale \<open>s\<close>
  and with cost, mass and volume equal to the base values of its type times \<open>s ^ 3\<close>,
  whatever its cost, mass and volume were before; the ids keep their order and the
  modules of other ids are unchanged.
\<close>

theorem rescale_cubic_law:
  assumes "selectedModule st = Some sel"
    and "\<not> (\<exists>m\<in>set (modules st). id_m m \<noteq> id_m sel \<and>
              checkAABBCollision (position sel) s (position m) (scale m))"
  shows "selectedModule (updateModuleScale s st) =
           Some (sel\<lparr>scale := s,
                     cost := baseCost (MODULE_SPECS (type sel)) * s ^ 3,
                     mass := baseMass (MODULE_SPECS (type sel)) * s ^ 3,
                     volume := baseVolume (MODULE_SPECS (type sel)) * s ^ 3\<rparr>) \<and>
         map id_m (modules (updateModuleScale s st)) = map id_m (modules st) \<and>
         filter (\<lambda>m. id_m m \<noteq> id_m sel) (modules (updateModuleScale s st)) =
           filter (\<lambda>m. id_m m \<noteq> id_m sel) (modules st)"
proof -
  let ?u = "\<lambda>m. if id_m m = id_m sel
                 then m\<lparr>scale := s,
                        cost := baseCost (MODULE_SPECS (type sel)) * s ^ 3,
                        mass := baseMass (MODULE_SPECS (type sel)) * s ^ 3,
                        volume := baseVolume (MODULE_SPECS (type sel)) * s ^ 3\<rparr>
                 else m"
  have upd: "updateModuleScale s st = st\<lparr>modules := map ?u (modules st)\<rparr>"
  proof -
    have "\<not> list_ex (\<lambda>m. id_m m \<noteq> id_m sel \<and>
              checkAABBCollision (position sel) s (position m) (scale m)) (modules st)"
      using assms(2) unfolding list_ex_iff by blast
    with assms(1) show ?thesis
      by (simp add: updateModuleScale_def Let_def)
  qed
  from assms(1) obtain sid where sid: "selectedModuleId st = Some sid"
    and f: "find (\<lambda>m. id_m m = sid) (modules st) = Some sel"
    by (auto simp: selectedModule_def split: option.splits)
  have ids: "id_m sel = sid" using f by (auto dest: find_Some_mem)
  have "find (\<lambda>m. id_m m = sid) (map ?u (modules st)) =
        map_option ?u (find (\<lambda>m. id_m m = sid) (modules st))"
    by (rule find_map_update) simp
  then have 1: "selectedModule (updateModuleScale s st) = Some (?u sel)"
    by (simp add: upd selectedModule_def sid f)
  have 2: "map id_m (map ?u (modules st)) = map id_m (modules st)"
    by (rule map_id_update) simp
  have 3: "filter (\<lambda>m. id_m m \<noteq> id_m sel) (map ?u (modules st)) =
           filter (\<lambda>m. id_m m \<noteq> id_m sel) (modules st)"
    by (rule filter_others_update) simp
  show ?thesis using 1 2 3 by (simp add: upd)
qed

text \<open>The law at the scales 0.5, 1 and 2, for the ECLSS module of \<open>two_modules\<close>.\<close>

lemma two_modules_free:
  "s \<le> 2 \<Longrightarrow> \<not> (\<exists>m\<in>set (modules two_modules). id_m m \<noteq> id_m two_eclss \<and>
           checkAABBCollision (position two_eclss) s (position m) (scale m))"
  by (simp add: two_modules_def two_eclss_def checkAABBCollision_def)

theorem rescale_cubic_law_witness:
  "selectedModule two_modules = Some two_eclss \<and>
   \<not> (\<exists>m\<in>set (modules two_modules). id_m m \<noteq> id_m two_eclss \<and>
         checkAABBCollision (position two_eclss) 0.5 (position m) (scale m)) \<and>
   \<not> (\<exists>m\<in>set (modules two_modules). id_m m \<noteq> id_m two_eclss \<and>
         checkAABBCollision (position two_eclss) 1 (position m) (scale m)) \<and>
   \<not> (\<exists>m\<in>set (modules two_modules). id_m m \<noteq> id_m two_eclss \<and>
         checkAABBCollision (position two_eclss) 2 (position m) (scale m)) \<and>
   selectedModule (updateModuleScale 0.5 two_modules) =
     Some (two_eclss\<lparr>scale := 0.5, cost := 18.75, mass := 1500, volume := 10\<rparr>) \<and>
   selectedModule (updateModuleScale 1 two_modules) =
     Some (two_eclss\<lparr>scale := 1, cost := 150, mass := 12000, volume := 80\<rparr>) \<and>
   selectedModule (updateModuleScale 2 two_modules) =
     Some (two_eclss\<lparr>scale := 2, cost := 1200, mass := 96000, volume := 640\<rparr>)"
proof -
  have t: "type two_eclss = Eclss" by (simp add: two_eclss_def)
  have h: "(0.5::real) \<le> 2" "(1::real) \<le> 2" "(2::real) \<le> 2" by simp_all
  show ?thesis
    using two_modules_selected two_modules_free[OF h(1)] two_modules_free[OF h(2)]
      two_modules_free[OF h(3)]
      rescale_cubic_law[OF two_modules_selected two_modules_free[OF h(1)]]
      rescale_cubic_law[OF two_modules_selected two_modules_free[OF h(2)]]
      rescale_cubic_law[OF two_modules_selected two_modules_free[OF h(3)]]
    by (simp add: t power3_eq_cube)
qed

section \<open>Adding a module\<close>

lemma digit_value_digit: "d < 10 \<Longrightarrow> digit_value (digit d) = d"
proof -
  assume "d < 10"
  then have "d \<in> {0, 1, 2, 3, 4, 5, 6, 7, 8, 9}" by auto
  then show ?thesis
    by (auto simp: digit_def digit_value_def)
qed

lemma read_nat_show_nat: "read_nat (show_nat n) = n"
proof (induction n rule: show_nat.induct)
  case (1 n)
  show ?case
  proof (cases "n < 10")
    case True
    then show ?thesis
      by (simp add: show_nat.simps[of n] read_nat_def digit_value_digit)
  next
    case False
    with 1 have "read_nat (show_nat (n div 10)) = n div 10" by simp
    with False show ?thesis
      by (simp add: show_nat.simps[of n] read_nat_def digit_value_digit)
  qed
qed

lemma show_nat_inject: "show_nat a = show_nat b \<Longrightarrow> a = b"
  by (metis read_nat_show_nat)

lemma type_string_inject: "type_string a = type_string b \<Longrightarrow> a = b"
  by (cases a; cases b) simp_all

lemma takeWhile_make_id:
  "takeWhile (\<lambda>c. c \<noteq> CHR ''-'') (make_id ty n) = type_string ty"
  by (cases ty) (simp_all add: make_id_def)

lemma dropWhile_make_id:
  "dropWhile (\<lambda>c. c \<noteq> CHR ''-'') (make_id ty n) = CHR ''-'' # show_nat n"
  by (cases ty) (simp_all add: make_id_def)

text \<open>An id determines the type and the clock reading it was made from.\<close>

lemma make_id_inject: "make_id ty n = make_id ty' n' \<Longrightarrow> ty = ty' \<and> n = n'"
proof
  assume eq: "make_id ty n = make_id ty' n'"
  from arg_cong[OF eq, of "takeWhile (\<lambda>c. c \<noteq> CHR ''-'')"]
  show "ty = ty'" by (simp add: takeWhile_make_id type_string_inject)
  from arg_cong[OF eq, of "dropWhile (\<lambda>c. c \<noteq> CHR ''-'')"]
  show "n = n'" by (simp add: dropWhile_make_id show_nat_inject)
qed

lemma find_append_last:
  "\<forall>y\<in>set xs. \<not> P y \<Longrightarrow> P x \<Longrightarrow> find P (xs @ [x]) = Some x"
  by (induction xs) auto

text \<open>
  When the origin is free (the unit-scale candidate at the origin collides with no
  module), \<^verbatim>\<open>addModule\<close> appends one module and changes no other: it is at the
  origin, with rotation zero, scale 1 and the base cost, mass and volume of its type;
  its id is the type's string, a hyphen and the clock reading, and it becomes the
  selection. When every existing id was made for another type or at another clock
  reading, the id differs from every existing id and the selected module is the new one.
\<close>

lemma addModule_success:
  assumes "\<not> (\<exists>m\<in>set (modules st). checkAABBCollision (0, 0, 0) 1 (position m) (scale m))"
  shows "modules (addModule ty now st) =
           modules st @
           [\<lparr>id_m = type_string ty @ ''-'' @ show_nat now, type = ty, position = (0, 0, 0),
             rotation = (0, 0, 0), scale = 1, cost = baseCost (MODULE_SPECS ty),
             mass = baseMass (MODULE_SPECS ty), volume = baseVolume (MODULE_SPECS ty)\<rparr>] \<and>
         selectedModuleId (addModule ty now st) = Some (type_string ty @ ''-'' @ show_nat now) \<and>
         collisionError (addModule ty now st) = collisionError st \<and>
         ((\<forall>m\<in>set (modules st). \<exists>ty' t. id_m m = make_id ty' t \<and> (ty' \<noteq> ty \<or> t \<noteq> now)) \<longrightarrow>
            type_string ty @ ''-'' @ show_nat now \<notin> set (map id_m (modules st)) \<and>
            selectedModule (addModule ty now st) = Some (newModule ty now))"
proof -
  have "\<not> list_ex (\<lambda>m. checkAABBCollision (0, 0, 0) 1 (position m) (scale m)) (modules st)"
    using assms unfolding list_ex_iff by blast
  then have add: "addModule ty now st =
      st\<lparr>modules := modules st @ [newModule ty now], selectedModuleId := Some (make_id ty now)\<rparr>"
    by (simp add: addModule_def Let_def newModule_def)
  have fresh: "make_id ty now \<notin> set (map id_m (modules st))"
    if "\<forall>m\<in>set (modules st). \<exists>ty' t. id_m m = make_id ty' t \<and> (ty' \<noteq> ty \<or> t \<noteq> now)"
  proof
    assume "make_id ty now \<in> set (map id_m (modules st))"
    then obtain m where "m \<in> set (modules st)" "id_m m = make_id ty now" by auto
    with that obtain ty' t where "make_id ty now = make_id ty' t" "ty' \<noteq> ty \<or> t \<noteq> now"
      by metis
    then show False by (auto dest: make_id_inject)
  qed
  have sel: "selectedModule (addModule ty now st) = Some (newModule ty now)"
    if "make_id ty now \<notin> set (map id_m (modules st))"
  proof -
    have "find (\<lambda>m. id_m m = make_id ty now) (modules st @ [newModule ty now]) =
          Some (newModule ty now)"
      using that by (intro find_append_last) (auto simp: newModule_def Let_def image_iff)
    then show ?thesis by (simp add: add selectedModule_def)
  qed
  show ?thesis
    using add fresh sel by (simp add: newModule_def Let_def make_id_def)
qed

lemma moved_state_free:
  "\<not> (\<exists>m\<in>set (modules moved_state). checkAABBCollision (0, 0, 0) 1 (position m) (scale m))"
  by (simp add: moved_state_eq checkAABBCollision_def)

lemma addModule_success_example:
  "\<not> (\<exists>m\<in>set (modules moved_state). checkAABBCollision (0, 0, 0) 1 (position m) (scale m)) \<and>
   map id_m (modules moved_state) = [''dormitory-5''] \<and>
   make_id Dormitory 5 = ''dormitory-5'' \<and>
   modules (addModule Eclss 6 moved_state) =
     modules moved_state @
     [\<lparr>id_m = ''eclss-6'', type = Eclss, position = (0, 0, 0), rotation = (0, 0, 0),
       scale = 1, cost = 150, mass = 12000, volume = 80\<rparr>] \<and>
   selectedModuleId (addModule Eclss 6 moved_state) = Some ''eclss-6'' \<and>
   collisionError (addModule Eclss 6 moved_state) = collisionError moved_state \<and>
   ''eclss-6'' \<notin> set (map id_m (modules moved_state)) \<and>
   selectedModule (addModule Eclss 6 moved_state) =
     Some \<lparr>id_m = ''eclss-6'', type = Eclss, position = (0, 0, 0), rotation = (0, 0, 0),
            scale = 1, cost = 150, mass = 12000, volume = 80\<rparr>"
proof -
  have s6: "show_nat 6 = ''6''"
    by (simp add: show_nat_digit digit_def)
  have ids: "map id_m (modules moved_state) = [''dormitory-5'']"
    by (simp add: moved_state_eq)
  have mk: "make_id Dormitory 5 = ''dormitory-5''"
    by (simp add: make_id_def show_nat_digit digit_def)
  have "\<exists>ty' t. ''dormitory-5'' = make_id ty' t \<and> (ty' \<noteq> Eclss \<or> t \<noteq> 6)"
    using mk by (intro exI[of _ Dormitory] exI[of _ 5]) simp
  then have old: "\<forall>m\<in>set (modules moved_state).
      \<exists>ty' t. id_m m = make_id ty' t \<and> (ty' \<noteq> Eclss \<or> t \<noteq> 6)"
    by (simp add: moved_state_eq)
  note r = addModule_success[OF moved_state_free, of Eclss 6]
  from r old have fresh:
    "type_string Eclss @ ''-'' @ show_nat 6 \<notin> set (map id_m (modules moved_state)) \<and>
     selectedModule (addModule Eclss 6 moved_state) = Some (newModule Eclss 6)"
    by blast
  have new: "newModule Eclss 6 =
      \<lparr>id_m = ''eclss-6'', type = Eclss, position = (0, 0, 0), rotation = (0, 0, 0),
        scale = 1, cost = 150, mass = 12000, volume = 80\<rparr>"
    by (simp add: newModule_def make_id_def s6)
  show ?thesis
    using moved_state_free ids mk r fresh by (simp add: s6 new)
qed

text \<open>
  C5. A module that \<^verbatim>\<open>addModule\<close> adds is to carry an id distinct from the id of
  every existing module, and to be the selected module. In \<open>moved_state\<close> a second
  dormitory added at the clock reading of the first is accepted and carries the id of
  the first; the selection then resolves to the first module, not to the new one.
\<close>

theorem addModule_repeats_id:
  "map id_m (modules moved_state) = [''dormitory-5''] \<and>
   modules (addModule Dormitory 5 moved_state) = modules moved_state @ [newModule Dormitory 5] \<and>
   selectedModuleId (addModule Dormitory 5 moved_state) = Some ''dormitory-5'' \<and>
   id_m (newModule Dormitory 5) \<in> set (map id_m (modules moved_state)) \<and>
   selectedModule (addModule Dormitory 5 moved_state) \<noteq> Some (newModule Dormitory 5)"
  by (simp add: moved_state_eq addModule_def newModule_def Let_def checkAABBCollision_def
        make_id_def show_nat_digit digit_def selectedModule_def)

section \<open>Derived metrics\<close>

lemma foldl_add_sum_list:
  "foldl (\<lambda>sum m. sum + f m) a ms = (a::real) + sum_list (map f ms)"
  by (induction ms arbitrary: a) simp_all

lemma example_state_eq:
  "example_state =
     \<lparr>modules =
        [\<lparr>id_m = ''dormitory-1'', type = Dormitory, position = (10, 0, 0), rotation = (0, 0, 0),
          scale = 1, cost = 45, mass = 8000, volume = 120\<rparr>,
         \<lparr>id_m = ''eclss-2'', type = Eclss, position = (0, 0, 0), rotation = (0, 0, 0),
          scale = 1, cost = 150, mass = 12000, volume = 80\<rparr>],
      selectedModuleId = Some ''eclss-2'', collisionError = None\<rparr>"
  by (simp add: example_state_def addModule_def updateModulePosition_def initial_state_def
        selectedModule_def newModule_def make_id_def show_nat_digit digit_def Let_def
        checkAABBCollision_def)

text \<open>
  C6. Hardware cost is the sum of the modules' costs; total mass is 10000 plus the sum
  of their masses; launch cost is total mass times 75000 divided by 1000000; total cost
  is hardware cost plus launch cost; total volume is the sum of the modules' volumes.
  After a dormitory and an ECLSS module have been added apart from each other, hardware
  cost is 195, total mass is 10000 + 20000 and total volume is 200.
\<close>

theorem derived_metrics:
  "totalHardwareCost st = sum_list (map cost (modules st)) \<and>
   totalMass st = 10000 + sum_list (map mass (modules st)) \<and>
   totalLaunchCost st = totalMass st * 75000 / 1000000 \<and>
   totalCost st = totalHardwareCost st + totalLaunchCost st \<and>
   totalVolume st = sum_list (map volume (modules st)) \<and>
   map type (modules example_state) = [Dormitory, Eclss] \<and>
   no_overlap (modules example_state) \<and>
   totalHardwareCost example_state = 195 \<and>
   totalMass example_state = 10000 + 20000 \<and>
   totalVolume example_state = 200"
  by (simp add: totalHardwareCost_def totalMass_def totalLaunchCost_def totalCost_def
        totalVolume_def BASE_HABITAT_MASS_def COST_PER_KG_TO_MARS_def foldl_add_sum_list
        example_state_eq collides_def checkAABBCollision_def)

section \<open>Compliance checks and logistics\<close>

lemma lone_state_totals:
  "totalMass (lone_state ma vol) = 10000 + ma" "totalVolume (lone_state ma vol) = vol"
  by (simp_all add: lone_state_def totalMass_def totalVolume_def BASE_HABITAT_MASS_def)

text \<open>
  C7. The radiation shielding check passes exactly when the module count times 15 plus
  total mass over 1000 is at least 200; the structural load check passes exactly when
  total mass over 100, times 1.5, is at most 350; the volume check passes exactly when
  total volume is at least 115.83, so it passes at 115.83 and fails at 115.82. On the
  empty layout the three checks have the values computed here: shielding fails with
  score 10, structural load passes with pressure 150, volume fails with 0.
\<close>

theorem compliance_checks:
  "RadiationShielding.pass (radiationShielding st) =
     (real (length (modules st)) * 15 + totalMass st / 1000 \<ge> 200) \<and>
   StructuralLoad.pass (structuralLoad st) = ((totalMass st / 100) * 1.5 \<le> 350) \<and>
   NhvCompliance.pass (nhvCompliance st) = (totalVolume st \<ge> 115.83) \<and>
   (totalVolume st = 115.83 \<longrightarrow> NhvCompliance.pass (nhvCompliance st)) \<and>
   (totalVolume st = 115.82 \<longrightarrow> \<not> NhvCompliance.pass (nhvCompliance st)) \<and>
   radiationShielding initial_state = \<lparr>score = 10, required = 200, pass = False\<rparr> \<and>
   structuralLoad initial_state = \<lparr>pressure = 150, limit = 350, pass = True\<rparr> \<and>
   nhvCompliance initial_state = \<lparr>actual = 0, required = 115.83, pass = False\<rparr>"
  by (simp add: radiationShielding_def structuralLoad_def nhvCompliance_def Let_def
        totalMass_def totalVolume_def BASE_HABITAT_MASS_def initial_state_def)

theorem compliance_checks_witness:
  "totalVolume (lone_state 10000 115.83) = 115.83 \<and>
   NhvCompliance.pass (nhvCompliance (lone_state 10000 115.83)) \<and>
   totalVolume (lone_state 10000 115.82) = 115.82 \<and>
   \<not> NhvCompliance.pass (nhvCompliance (lone_state 10000 115.82)) \<and>
   \<not> RadiationShielding.pass (radiationShielding (lone_state 10000 115.83)) \<and>
   StructuralLoad.pass (structuralLoad (lone_state 10000 115.83))"
  using compliance_checks[of "lone_state 10000 115.83"]
    compliance_checks[of "lone_state 10000 115.82"]
  by (simp add: lone_state_totals) (simp add: lone_state_def)

text \<open>
  C8. The vehicle label is \<^verbatim>\<open>Starship HLS Variant\<close> when total mass is greater than
  50000 and \<^verbatim>\<open>Ares V Heavy Lift\<close> otherwise: the second at a total mass of 50000,
  the first at 50001. The two labels differ, no other label is chosen, and the label
  that names a heavy-lift vehicle is the one chosen at or below the threshold.
\<close>

theorem logistics_vehicle:
  "vehicle (logistics st) =
     (if totalMass st > 50000 then ''Starship HLS Variant'' else ''Ares V Heavy Lift'') \<and>
   (totalMass st = 50000 \<longrightarrow> vehicle (logistics st) = ''Ares V Heavy Lift'') \<and>
   (totalMass st = 50001 \<longrightarrow> vehicle (logistics st) = ''Starship HLS Variant'') \<and>
   vehicle (logistics st) \<in> {''Starship HLS Variant'', ''Ares V Heavy Lift''} \<and>
   ''Starship HLS Variant'' \<noteq> ''Ares V Heavy Lift'' \<and>
   names_heavy_lift (vehicle (logistics st)) = (totalMass st \<le> 50000)"
  by (simp add: logistics_def Let_def names_heavy_lift_def)

theorem logistics_vehicle_witness:
  "totalMass (lone_state 40000 150) = 50000 \<and>
   vehicle (logistics (lone_state 40000 150)) = ''Ares V Heavy Lift'' \<and>
   totalMass (lone_state 40001 150) = 50001 \<and>
   vehicle (logistics (lone_state 40001 150)) = ''Starship HLS Variant''"
  using logistics_vehicle[of "lone_state 40000 150"] logistics_vehicle[of "lone_state 40001 150"]
  by (simp add: lone_state_totals)

text \<open>
  As the claim words it, 50000 selects the smaller-lift label and 50001 the heavy-lift
  label. The label selected at 50001 does not name a heavy-lift vehicle, and the one
  selected at 50000 does.
\<close>

theorem logistics_vehicle_counterexample:
  "totalMass (lone_state 40001 150) = 50001 \<and>
   \<not> names_heavy_lift (vehicle (logistics (lone_state 40001 150))) \<and>
   totalMass (lone_state 40000 150) = 50000 \<and>
   names_heavy_lift (vehicle (logistics (lone_state 40000 150)))"
  by (simp add: lone_state_totals logistics_def Let_def names_heavy_lift_def)

section \<open>Save and load\<close>









text \<open>
  The model of \<^verbatim>\<open>JSON.stringify\<close> and \<^verbatim>\<open>JSON.parse\<close> is not the identity: a
  property whose value is \<^verbatim>\<open>undefined\<close> is lost, and an \<^verbatim>\<open>undefined\<close> array
  element comes back as \<^verbatim>\<open>null\<close>.
\<close>

lemma stringify_parse_lossy:
  "map_option parse_value (stringify_value (VObj [(''a'', VUndefined), (''b'', VNum 1)])) =
     Some (VObj [(''b'', VNum 1)]) \<and>
   map_option parse_value (stringify_value (VArr [VUndefined])) = Some (VArr [VNull]) \<and>
   stringify_value VUndefined = None"
  by (simp add: build_object_def)

text \<open>
  A stored record without a module list is loaded all the same: the module list becomes
  \<^verbatim>\<open>undefined\<close> and the selection none. A stored \<^verbatim>\<open>null\<close>, a text that is not
  JSON and a missing or empty text leave the state as it was.
\<close>

lemma load_empty_object:
  "loadDesign [STORAGE_KEY \<mapsto> Document (JObj [])] st =
     ((js_of_state st)\<lparr>modules_js := VUndefined, selectedModuleId_js := None\<rparr>, Loaded VUndefined)"
  by (simp add: loadDesign_def build_object_def)

lemma load_without_record:
  "loadDesign [STORAGE_KEY \<mapsto> Document JNull] st = (js_of_state st, LoadFailed) \<and>
   loadDesign [STORAGE_KEY \<mapsto> NotJSON] st = (js_of_state st, LoadFailed) \<and>
   loadDesign [STORAGE_KEY \<mapsto> EmptyText] st = (js_of_state st, NoSavedDesign) \<and>
   loadDesign Map.empty st = (js_of_state st, NoSavedDesign)"
  by (simp add: loadDesign_def)

section \<open>Deleting a module\<close>

text \<open>
  C10. \<^verbatim>\<open>deleteModule\<close> removes every module of the given id, with no collision
  check and no collision report; it clears the selection when the selection is that id
  and keeps it otherwise; when no module has the id the module list is unchanged (and
  the whole state is, unless a selection of that id is cleared); deleting twice is
  deleting once.
\<close>

theorem deleteModule_spec:
  "modules (deleteModule i st) = filter (\<lambda>m. id_m m \<noteq> i) (modules st) \<and>
   i \<notin> set (map id_m (modules (deleteModule i st))) \<and>
   collisionError (deleteModule i st) = collisionError st \<and>
   (selectedModuleId st = Some i \<longrightarrow> selectedModuleId (deleteModule i st) = None) \<and>
   (selectedModuleId st \<noteq> Some i \<longrightarrow>
      selectedModuleId (deleteModule i st) = selectedModuleId st) \<and>
   (i \<notin> set (map id_m (modules st)) \<longrightarrow> modules (deleteModule i st) = modules st) \<and>
   (i \<notin> set (map id_m (modules st)) \<and> selectedModuleId st \<noteq> Some i \<longrightarrow>
      deleteModule i st = st) \<and>
   deleteModule i (deleteModule i st) = deleteModule i st"
proof -
  have "filter (\<lambda>m. id_m m \<noteq> i) (modules st) = modules st"
    if "i \<notin> set (map id_m (modules st))"
    using that by (auto simp: filter_id_conv)
  then show ?thesis
    by (auto simp: deleteModule_def Let_def)
qed

theorem deleteModule_spec_witness:
  "selectedModuleId two_modules = Some ''eclss-2'' \<and>
   selectedModuleId (deleteModule ''eclss-2'' two_modules) = None \<and>
   map id_m (modules (deleteModule ''eclss-2'' two_modules)) = [''dormitory-1''] \<and>
   selectedModuleId two_modules \<noteq> Some ''dormitory-1'' \<and>
   selectedModuleId (deleteModule ''dormitory-1'' two_modules) = Some ''eclss-2'' \<and>
   map id_m (modules (deleteModule ''dormitory-1'' two_modules)) = [''eclss-2''] \<and>
   ''lab-9'' \<notin> set (map id_m (modules two_modules)) \<and>
   selectedModuleId two_modules \<noteq> Some ''lab-9'' \<and>
   deleteModule ''lab-9'' two_modules = two_modules"
proof -
  have ids: "map id_m (modules two_modules) = [''dormitory-1'', ''eclss-2'']"
    and sel: "selectedModuleId two_modules = Some ''eclss-2''"
    by (simp_all add: two_modules_def two_eclss_def)
  have "map id_m (filter (\<lambda>m. id_m m \<noteq> ''eclss-2'') (modules two_modules)) = [''dormitory-1'']"
    "map id_m (filter (\<lambda>m. id_m m \<noteq> ''dormitory-1'') (modules two_modules)) = [''eclss-2'']"
    by (simp_all add: two_modules_def two_eclss_def)
  then show ?thesis
    using ids sel deleteModule_spec[of "''eclss-2''" two_modules]
      deleteModule_spec[of "''dormitory-1''" two_modules]
      deleteModule_spec[of "''lab-9''" two_modules]
    by simp
qed

end
